theory Spec2Isabelle
  imports Complex_Main "HOL-Library.AList"
begin

section \<open>Python values\<close>

text \<open>
  The values that \<open>json.loads\<close> produces and that the token manager passes around.
  \<open>JNull\<close> is Python's \<open>None\<close>, \<open>JStr\<close> a \<open>str\<close>, \<open>JObj\<close> a \<open>dict\<close> (an
  association list in insertion order; \<open>map_of\<close> looks a key up, \<open>AList.update\<close>
  assigns to one, keeping its position or appending it, as a \<open>dict\<close> does).
  \<open>JInt\<close> is an \<open>int\<close> and \<open>JFloat\<close> a \<open>float\<close>, taken with its exact rational
  value: binary rounding is not modelled, and the values are those of standard JSON
  (no \<open>NaN\<close> or \<open>Infinity\<close>, which Python's parser would also accept).
\<close>

datatype json =
    JNull
  | JBool bool
  | JInt int
  | JFloat rat
  | JStr string
  | JArr "json list"
  | JObj "(string \<times> json) list"

text \<open>Python's truth value of an object, as \<open>if not x\<close> tests it.\<close>

fun truthy :: "json \<Rightarrow> bool" where
  "truthy JNull = False"
| "truthy (JBool b) = b"
| "truthy (JInt n) = (n \<noteq> 0)"
| "truthy (JFloat x) = (x \<noteq> 0)"
| "truthy (JStr s) = (s \<noteq> [])"
| "truthy (JArr xs) = (xs \<noteq> [])"
| "truthy (JObj d) = (d \<noteq> [])"

text \<open>
  The finite number a value is in arithmetic and comparisons with numbers
  (\<open>bool\<close> is a subclass of \<open>int\<close>); \<open>None\<close> where Python raises \<open>TypeError\<close>.
\<close>

fun as_number :: "json \<Rightarrow> rat option" where
  "as_number (JInt n) = Some (of_int n)"
| "as_number (JFloat x) = Some x"
| "as_number (JBool b) = Some (if b then 1 else 0)"
| "as_number v = None"

datatype py_exn =
    TypeError
  | ValueError
  | OverflowError
  | AttributeError
  | KeyError
  | RecursionError

section \<open>Dates and durations\<close>

text \<open>
  A naive \<open>datetime\<close> is a calendar reading without a zone.  It is represented by the
  number of microseconds from the reading 1970-01-01 00:00:00 to it, counted on the
  calendar; so the difference of two naive datetimes, which Python computes on the
  calendar, is the difference of their numbers.  A \<open>timedelta\<close> is a number of
  microseconds.  \<open>datetime\<close> covers the years 1 to 9999, \<open>timedelta\<close> the durations of
  up to 999999999 days either way.
\<close>

definition MIN_DATETIME :: int where
  "MIN_DATETIME = - 62135596800000000"

definition MAX_DATETIME :: int where
  "MAX_DATETIME = 253402300799999999"

definition timedelta_days :: "int \<Rightarrow> int" where
  "timedelta_days d = d * 86400000000"

definition MAX_TIMEDELTA :: int where
  "MAX_TIMEDELTA = 86399999999999999999"

definition MIN_TIMEDELTA :: int where
  "MIN_TIMEDELTA = - 86399999913600000000"

section \<open>The store and the library\<close>

text \<open>
  \<open>ItemTable\<close> is a list of rows \<open>(key, value)\<close> in the order in which the database
  enumerates them; a value is text or \<open>NULL\<close> (\<open>None\<close>).
\<close>

type_synonym item_table = "(string \<times> string option) list"

text \<open>The answer of \<open>requests.post\<close>: a response with its status code and body, or an
  exception (no connection, timeout).\<close>

datatype http_outcome =
    Response int string
  | RequestException

text \<open>
  What \<open>json.loads\<close> does with a text: it returns a value, raises \<open>JSONDecodeError\<close>
  (with its message), or raises another exception (as on an integer of too many digits,
  or on nesting too deep).
\<close>

datatype loaded =
    Loaded json
  | JSONDecodeError string
  | OtherError py_exn

text \<open>
  What the token manager takes from outside, fixed for one pass.  Nothing is said here
  about how the library computes; each function stands for the library's own.
  \<^item> \<open>json_loads\<close>: \<open>json.loads\<close> on text;
  \<^item> \<open>json_dumps\<close>: \<open>json.dumps\<close>;
  \<^item> \<open>http_post\<close>: the answer of the refresh endpoint to a JSON request body;
  \<^item> \<open>clock\<close>: the naive local reading of \<open>datetime.now()\<close>, one for the whole pass;
  \<^item> \<open>db_available\<close>: whether \<open>sqlite3.connect\<close> and its statements succeed;
  \<^item> \<open>true_divide\<close>: \<open>x / y\<close> on numbers, a float (with its rounding) or
    \<open>OverflowError\<close>;
  \<^item> \<open>fromtimestamp\<close>: \<open>datetime.fromtimestamp\<close>, from a number of seconds since the
    epoch to the naive reading of the local time zone, or an exception;
  \<^item> \<open>timedelta_seconds\<close>: \<open>timedelta(seconds=x)\<close> for a float \<open>x\<close>;
  \<^item> \<open>timestamp\<close>: \<open>datetime.timestamp()\<close> of a naive reading, the float number of
    seconds since the epoch at which the local time zone shows it, or an exception;
  \<^item> \<open>float_times\<close>: the float product \<open>x * y\<close>.
  A float is given by its exact value.
\<close>

record env =
  json_loads :: "string \<Rightarrow> loaded"
  json_dumps :: "json \<Rightarrow> string"
  http_post :: "json \<Rightarrow> http_outcome"
  clock :: int
  db_available :: bool
  true_divide :: "rat \<Rightarrow> rat \<Rightarrow> py_exn + rat"
  fromtimestamp :: "rat \<Rightarrow> py_exn + int"
  timedelta_seconds :: "rat \<Rightarrow> py_exn + int"
  timestamp :: "int \<Rightarrow> py_exn + rat"
  float_times :: "rat \<Rightarrow> rat \<Rightarrow> rat"

text \<open>
  What a pass can change: the committed rows of the table, the request bodies posted so
  far and the \<open>UPDATE\<close> statements executed so far (new value, key).
\<close>

record world =
  rows_of :: item_table
  posted :: "json list"
  sql_updates :: "(string \<times> string) list"

text \<open>
  The filter of both queries,
  \<^verbatim>\<open>WHERE key LIKE '%auth%' OR key LIKE '%token%'\<close>:
  \<open>LIKE\<close> ignores the case of ASCII letters, and \<open>%\<close> matches any text.
\<close>

definition ascii_lower :: "char \<Rightarrow> char" where
  "ascii_lower c =
     (case map_of (zip ''ABCDEFGHIJKLMNOPQRSTUVWXYZ'' ''abcdefghijklmnopqrstuvwxyz'') c of
        None \<Rightarrow> c
      | Some l \<Rightarrow> l)"

text \<open>The lower-case text \<open>pat\<close> starts \<open>s\<close>, and occurs in \<open>s\<close>, whatever the case of
  the letters of \<open>s\<close>.\<close>

fun like_prefix :: "string \<Rightarrow> string \<Rightarrow> bool" where
  "like_prefix [] s = True"
| "like_prefix (p # ps) [] = False"
| "like_prefix (p # ps) (c # cs) = (if ascii_lower c = p then like_prefix ps cs else False)"

fun like_contains :: "string \<Rightarrow> string \<Rightarrow> bool" where
  "like_contains pat [] = (pat = [])"
| "like_contains pat (c # cs) =
     (if like_prefix pat (c # cs) then True else like_contains pat cs)"

definition key_selected :: "string \<Rightarrow> bool" where
  "key_selected key = (like_contains ''auth'' key \<or> like_contains ''token'' key)"

definition select_rows :: "item_table \<Rightarrow> item_table" where
  "select_rows tbl = filter (\<lambda>(key, v). key_selected key) tbl"

text \<open>\<^verbatim>\<open>UPDATE ItemTable SET value = ? WHERE key = ?\<close>\<close>

definition sql_update :: "string \<Rightarrow> string \<Rightarrow> item_table \<Rightarrow> item_table" where
  "sql_update new_value key tbl =
     map (\<lambda>(k, v). if k = key then (k, Some new_value) else (k, v)) tbl"

section \<open>Expiry check (\<open>CursorTokenManager.check_token_expiry\<close>)\<close>

text \<open>
  The body of the \<open>try\<close> block:
  \<^verbatim>\<open>
    if expires_at > 10**12:
        expire_time = datetime.fromtimestamp(expires_at / 1000)
    else:
        expire_time = datetime.fromtimestamp(expires_at)
    now = datetime.now()
    time_left = expire_time - now
    return time_left < timedelta(days=10)
  \<close>
  Comparing a non-number with \<open>10**12\<close> raises \<open>TypeError\<close>; a number is compared by
  its exact value.  The division and \<open>fromtimestamp\<close> are the library's.
\<close>

definition expiry_decision :: "env \<Rightarrow> json \<Rightarrow> py_exn + bool" where
  "expiry_decision E expires_at =
     (case as_number expires_at of
        None \<Rightarrow> Inl TypeError
      | Some x \<Rightarrow>
          (case (if 10 ^ 12 < x
                 then (case true_divide E x 1000 of
                         Inl e \<Rightarrow> Inl e
                       | Inr seconds \<Rightarrow> fromtimestamp E seconds)
                 else fromtimestamp E x) of
             Inl e \<Rightarrow> Inl e
           | Inr expire_time \<Rightarrow> Inr (expire_time - clock E < timedelta_days 10)))"

text \<open>
  \<^verbatim>\<open>
    if not expires_at:
        return True
    try: ...
    except Exception as e:
        return True
  \<close>
\<close>

definition check_token_expiry :: "env \<Rightarrow> json \<Rightarrow> bool" where
  "check_token_expiry E expires_at =
     (if \<not> truthy expires_at then True
      else (case expiry_decision E expires_at of
              Inl e \<Rightarrow> True
            | Inr needs_refresh \<Rightarrow> needs_refresh))"

section \<open>Reading the tokens (\<open>CursorTokenManager.get_current_tokens\<close>)\<close>

text \<open>
  \<^verbatim>\<open>
    for key, value in rows:
        try:
            auth_data[key] = json.loads(value) if value else None
        except json.JSONDecodeError:
            auth_data[key] = value
  \<close>
\<close>

text \<open>An exception other than \<open>JSONDecodeError\<close> leaves the loop (\<open>Inl\<close>).\<close>

definition parse_entry :: "env \<Rightarrow> string option \<Rightarrow> py_exn + json" where
  "parse_entry E v =
     (case v of
        None \<Rightarrow> Inr JNull
      | Some s \<Rightarrow>
          if s = [] then Inr JNull
          else (case json_loads E s of
                  Loaded data \<Rightarrow> Inr data
                | JSONDecodeError msg \<Rightarrow> Inr (JStr s)
                | OtherError e \<Rightarrow> Inl e))"

fun build_auth_data ::
  "env \<Rightarrow> item_table \<Rightarrow> (string \<times> json) list \<Rightarrow> py_exn + (string \<times> json) list" where
  "build_auth_data E [] auth_data = Inr auth_data"
| "build_auth_data E ((key, v) # rows) auth_data =
     (case parse_entry E v of
        Inl e \<Rightarrow> Inl e
      | Inr data \<Rightarrow> build_auth_data E rows (AList.update key data auth_data))"

record token_info =
  access_token :: json
  refresh_token :: json
  expires_at :: json
  raw_data :: "(string \<times> json) list"

text \<open>
  \<^verbatim>\<open>
    for key, data in auth_data.items():
        if isinstance(data, dict):
            if 'accessToken' in data:
                access_token = data['accessToken']
            if 'refreshToken' in data:
                refresh_token = data['refreshToken']
            if 'expiresAt' in data:
                expires_at = data['expiresAt']
            elif 'expires_at' in data:
                expires_at = data['expires_at']
  \<close>
  The three variables start as \<open>None\<close>.
\<close>

fun scan_tokens :: "(string \<times> json) list \<Rightarrow> json \<times> json \<times> json \<Rightarrow> json \<times> json \<times> json" where
  "scan_tokens [] found = found"
| "scan_tokens ((key, JObj d) # rest) (a, r, e) =
     scan_tokens rest
       ((case map_of d ''accessToken'' of Some v \<Rightarrow> v | None \<Rightarrow> a),
        (case map_of d ''refreshToken'' of Some v \<Rightarrow> v | None \<Rightarrow> r),
        (case map_of d ''expiresAt'' of
           Some v \<Rightarrow> v
         | None \<Rightarrow> (case map_of d ''expires_at'' of Some v \<Rightarrow> v | None \<Rightarrow> e)))"
| "scan_tokens ((key, data) # rest) found = scan_tokens rest found"

text \<open>\<open>None\<close> is the \<open>return None\<close> of the \<open>except\<close> clause: the database could not be
  read, or parsing a value raised an exception other than \<open>JSONDecodeError\<close>.\<close>

definition get_current_tokens :: "env \<Rightarrow> world \<Rightarrow> token_info option" where
  "get_current_tokens E W =
     (if \<not> db_available E then None
      else
        (case build_auth_data E (select_rows (rows_of W)) [] of
           Inl exn \<Rightarrow> None
         | Inr auth_data \<Rightarrow>
             (case scan_tokens auth_data (JNull, JNull, JNull) of
                (a, r, e) \<Rightarrow>
                  Some \<lparr>access_token = a, refresh_token = r, expires_at = e,
                        raw_data = auth_data\<rparr>)))"

section \<open>The refresh request (\<open>CursorTokenManager.refresh_access_token\<close>)\<close>

definition refresh_request :: "json \<Rightarrow> json" where
  "refresh_request token = JObj [(''refresh_token'', token)]"

text \<open>
  One \<open>requests.post\<close>; the parsed body on status 200, \<open>None\<close> on any other status and
  on any exception (of the request, or of \<open>response.json()\<close>).
\<close>

definition refresh_access_token :: "env \<Rightarrow> world \<Rightarrow> json \<Rightarrow> json \<times> world" where
  "refresh_access_token E W token =
     (let W' = W\<lparr>posted := posted W @ [refresh_request token]\<rparr>
      in case http_post E (refresh_request token) of
           RequestException \<Rightarrow> (JNull, W')
         | Response status_code body \<Rightarrow>
             if status_code = 200
             then (case json_loads E body of
                     Loaded result \<Rightarrow> (result, W')
                   | JSONDecodeError msg \<Rightarrow> (JNull, W')
                   | OtherError e \<Rightarrow> (JNull, W'))
             else (JNull, W'))"

section \<open>Writing the tokens (\<open>CursorTokenManager.update_token_in_db\<close>)\<close>

text \<open>
  \<^verbatim>\<open>data['accessToken'][:20] + "..." if data['accessToken'] else "None"\<close>:
  the preview for the log; slicing a true value that is not a string, or adding a string
  to the slice, raises.
\<close>

definition token_preview :: "json \<Rightarrow> py_exn + string" where
  "token_preview tok =
     (if truthy tok
      then (case tok of JStr s \<Rightarrow> Inr (take 20 s @ ''...'') | _ \<Rightarrow> Inl TypeError)
      else Inr ''None'')"

text \<open>Python's \<open>int(x)\<close> on a float: truncation towards zero.\<close>

definition py_int :: "rat \<Rightarrow> int" where
  "py_int x = (if 0 \<le> x then \<lfloor>x\<rfloor> else \<lceil>x\<rceil>)"

text \<open>
  \<open>timedelta(seconds=v)\<close>: exact for an \<open>int\<close> (and a \<open>bool\<close>), the library's rounding
  for a float, \<open>TypeError\<close> for anything else.
\<close>

definition seconds_delta :: "env \<Rightarrow> json \<Rightarrow> py_exn + int" where
  "seconds_delta E v =
     (case v of
        JInt n \<Rightarrow>
          if n * 1000000 < MIN_TIMEDELTA \<or> MAX_TIMEDELTA < n * 1000000 then Inl OverflowError
          else Inr (n * 1000000)
      | JBool b \<Rightarrow> Inr (if b then 1000000 else 0)
      | JFloat x \<Rightarrow> timedelta_seconds E x
      | _ \<Rightarrow> Inl TypeError)"

text \<open>
  \<^verbatim>\<open>int((datetime.now() + timedelta(seconds=new_token_data['expires_in'])).timestamp() * 1000)\<close>
  The sum is computed on the calendar and must stay within the years of \<open>datetime\<close>;
  \<open>timestamp()\<close> and the product are the library's.
\<close>

definition new_expires_at :: "env \<Rightarrow> json \<Rightarrow> py_exn + int" where
  "new_expires_at E expires_in =
     (case seconds_delta E expires_in of
        Inl e \<Rightarrow> Inl e
      | Inr delta \<Rightarrow>
          if clock E + delta < MIN_DATETIME \<or> MAX_DATETIME < clock E + delta
          then Inl OverflowError
          else (case timestamp E (clock E + delta) of
                  Inl e \<Rightarrow> Inl e
                | Inr seconds \<Rightarrow> Inr (py_int (float_times E seconds 1000))))"

text \<open>
  The assignments to one record \<open>data\<close> that holds \<open>accessToken\<close> (\<open>old\<close> is its value):
  \<^verbatim>\<open>
    old_token = data['accessToken'][:20] + "..." if data['accessToken'] else "None"
    data['accessToken'] = new_token_data.get('access_token', data['accessToken'])
    if 'refresh_token' in new_token_data:
        data['refreshToken'] = new_token_data['refresh_token']
    if 'expires_in' in new_token_data:
        expires_at = int(...)
        data['expiresAt'] = expires_at
  \<close>
  \<open>.get\<close> exists on a \<open>dict\<close> only.
\<close>

definition refreshed_entry ::
  "env \<Rightarrow> json \<Rightarrow> (string \<times> json) list \<Rightarrow> json \<Rightarrow> py_exn + (string \<times> json) list" where
  "refreshed_entry E new_token_data d old =
     (case token_preview old of
        Inl e \<Rightarrow> Inl e
      | Inr old_token \<Rightarrow>
          (case new_token_data of
             JObj nd \<Rightarrow>
               let d1 = AList.update ''accessToken''
                          (case map_of nd ''access_token'' of Some v \<Rightarrow> v | None \<Rightarrow> old) d;
                   d2 = (case map_of nd ''refresh_token'' of
                           Some v \<Rightarrow> AList.update ''refreshToken'' v d1
                         | None \<Rightarrow> d1)
               in (case map_of nd ''expires_in'' of
                     None \<Rightarrow> Inr d2
                   | Some expires_in \<Rightarrow>
                       (case new_expires_at E expires_in of
                          Inl e \<Rightarrow> Inl e
                        | Inr ms \<Rightarrow> Inr (AList.update ''expiresAt'' (JInt ms) d2)))
           | _ \<Rightarrow> Inl AttributeError))"

text \<open>
  What the loop body does with one row: nothing (\<open>continue\<close>, or no \<open>accessToken\<close>
  in a \<open>dict\<close>), an exception other than \<open>JSONDecodeError\<close> before the \<open>UPDATE\<close>, the
  \<open>UPDATE\<close> with the new value, or the \<open>UPDATE\<close> and then an exception (the preview of
  the new token for the log).
\<close>

datatype row_step =
    Skip
  | Raise py_exn
  | Write string
  | WriteThenRaise string py_exn

definition update_step :: "env \<Rightarrow> json \<Rightarrow> string option \<Rightarrow> row_step" where
  "update_step E new_token_data v =
     (case (case v of
              None \<Rightarrow> Loaded (JObj [])
            | Some s \<Rightarrow> if s = [] then Loaded (JObj []) else json_loads E s) of
        JSONDecodeError msg \<Rightarrow> Skip
      | OtherError e \<Rightarrow> Raise e
      | Loaded (JObj d) \<Rightarrow>
          (case map_of d ''accessToken'' of
             None \<Rightarrow> Skip
           | Some old \<Rightarrow>
               (case refreshed_entry E new_token_data d old of
                  Inl e \<Rightarrow> Raise e
                | Inr d' \<Rightarrow>
                    (case map_of d' ''accessToken'' of
                       None \<Rightarrow> WriteThenRaise (json_dumps E (JObj d')) KeyError
                     | Some new \<Rightarrow>
                         (case token_preview new of
                            Inl e \<Rightarrow> WriteThenRaise (json_dumps E (JObj d')) e
                          | Inr new_token \<Rightarrow> Write (json_dumps E (JObj d'))))))
      | Loaded data \<Rightarrow> Skip)"

text \<open>
  The loop over the rows fetched before it starts; the state is the table as the open
  transaction sees it, \<open>updated_count\<close> and the statements executed.  The first
  component of the result is the exception that ended the loop, if any.
\<close>

fun update_rows ::
  "env \<Rightarrow> json \<Rightarrow> item_table \<Rightarrow> item_table \<times> nat \<times> (string \<times> string) list
     \<Rightarrow> py_exn option \<times> item_table \<times> nat \<times> (string \<times> string) list" where
  "update_rows E new_token_data [] (tbl, updated_count, stmts) =
     (None, tbl, updated_count, stmts)"
| "update_rows E new_token_data ((key, v) # rows) (tbl, updated_count, stmts) =
     (case update_step E new_token_data v of
        Skip \<Rightarrow> update_rows E new_token_data rows (tbl, updated_count, stmts)
      | Raise e \<Rightarrow> (Some e, tbl, updated_count, stmts)
      | Write s \<Rightarrow>
          update_rows E new_token_data rows
            (sql_update s key tbl, Suc updated_count, stmts @ [(s, key)])
      | WriteThenRaise s e \<Rightarrow>
          (Some e, sql_update s key tbl, updated_count, stmts @ [(s, key)]))"

text \<open>
  \<open>conn.commit()\<close> is reached only when the loop ends without an exception; the
  \<open>except\<close> clause returns \<open>False\<close> with the transaction still open, so what it wrote is
  never committed.
\<close>

definition update_token_in_db :: "env \<Rightarrow> world \<Rightarrow> json \<Rightarrow> bool \<times> world" where
  "update_token_in_db E W new_token_data =
     (if \<not> db_available E then (False, W)
      else
        (case update_rows E new_token_data (select_rows (rows_of W)) (rows_of W, 0, []) of
           (Some e, tbl, updated_count, stmts) \<Rightarrow>
             (False, W\<lparr>sql_updates := sql_updates W @ stmts\<rparr>)
         | (None, tbl, updated_count, stmts) \<Rightarrow>
             (0 < updated_count, W\<lparr>rows_of := tbl, sql_updates := sql_updates W @ stmts\<rparr>)))"

section \<open>One pass (\<open>CursorTokenManager.refresh_if_needed\<close>)\<close>

text \<open>
  The function returns a \<open>bool\<close>; the place it returns from is told by the line it logs
  just before:
  \<^item> \<open>NoTokenInfo\<close>: "cannot get the current token information" (\<open>False\<close>);
  \<^item> \<open>NoRefreshToken\<close>: "no refresh token found" (\<open>False\<close>);
  \<^item> \<open>StillFresh\<close>: "token not expired yet, no refresh needed" (\<open>True\<close>);
  \<^item> \<open>RefreshFailed\<close>: "token refresh failed" (\<open>False\<close>);
  \<^item> \<open>Refreshed\<close>: "token refreshed and updated" (\<open>True\<close>);
  \<^item> \<open>UpdateFailed\<close>: "token refreshed but updating the database failed" (\<open>False\<close>).
\<close>

datatype outcome =
    NoTokenInfo
  | NoRefreshToken
  | StillFresh
  | RefreshFailed
  | Refreshed
  | UpdateFailed

fun returned :: "outcome \<Rightarrow> bool" where
  "returned StillFresh = True"
| "returned Refreshed = True"
| "returned other = False"

definition refresh_if_needed :: "env \<Rightarrow> world \<Rightarrow> outcome \<times> world" where
  "refresh_if_needed E W =
     (case get_current_tokens E W of
        None \<Rightarrow> (NoTokenInfo, W)
      | Some token_info \<Rightarrow>
          if \<not> truthy (refresh_token token_info) then (NoRefreshToken, W)
          else if \<not> check_token_expiry E (expires_at token_info) then (StillFresh, W)
          else
            (case refresh_access_token E W (refresh_token token_info) of
               (new_token_data, W1) \<Rightarrow>
                 if \<not> truthy new_token_data then (RefreshFailed, W1)
                 else
                   (case update_token_in_db E W1 new_token_data of
                      (True, W2) \<Rightarrow> (Refreshed, W2)
                    | (False, W2) \<Rightarrow> (UpdateFailed, W2))))"

section \<open>Decoding a token's payload (\<open>JWTAnalyzer.decode_jwt_payload\<close>)\<close>

text \<open>\<open>jwt_token.split('.')\<close>: the pieces between the dots, at least one.\<close>

fun split_dot :: "string \<Rightarrow> string list" where
  "split_dot [] = [[]]"
| "split_dot (c # cs) =
     (if c = CHR ''.'' then [] # split_dot cs
      else (case split_dot cs of
              [] \<Rightarrow> [[c]]
            | part # parts \<Rightarrow> (c # part) # parts))"

text \<open>\<^verbatim>\<open>payload += '=' * (4 - len(payload) % 4)\<close>\<close>

definition add_padding :: "string \<Rightarrow> string" where
  "add_padding payload = payload @ replicate (4 - length payload mod 4) CHR ''=''"

text \<open>
  The library functions the decoder calls, each \<open>Inl\<close> the message of the exception it
  raises: \<open>base64.urlsafe_b64decode\<close>, \<open>bytes.decode('utf-8')\<close> and \<open>json.loads\<close>.
\<close>

record codec =
  urlsafe_b64decode :: "string \<Rightarrow> string + string"
  utf8_decode :: "string \<Rightarrow> string + string"
  loads :: "string \<Rightarrow> string + json"

text \<open>
  The two error results of the decoder: the fixed message "not a valid JWT format", and
  "decoding failed: " followed by the text of whatever exception was caught.
\<close>

datatype decode_error =
    NotJWTFormat
  | DecodeFailed string

text \<open>The result is the pair \<open>(decoded_json, error)\<close>; \<open>JNull\<close> and \<open>None\<close> are Python's
  \<open>None\<close>.\<close>

definition decode_jwt_payload :: "codec \<Rightarrow> string \<Rightarrow> json \<times> decode_error option" where
  "decode_jwt_payload L jwt_token =
     (let parts = split_dot jwt_token
      in if length parts \<noteq> 3 then (JNull, Some NotJWTFormat)
         else
           (case urlsafe_b64decode L (add_padding (parts ! 1)) of
              Inl msg \<Rightarrow> (JNull, Some (DecodeFailed msg))
            | Inr decoded_bytes \<Rightarrow>
                (case utf8_decode L decoded_bytes of
                   Inl msg \<Rightarrow> (JNull, Some (DecodeFailed msg))
                 | Inr text \<Rightarrow>
                     (case loads L text of
                        Inl msg \<Rightarrow> (JNull, Some (DecodeFailed msg))
                      | Inr decoded_json \<Rightarrow> (decoded_json, None)))))"

section \<open>Notions of the specification\<close>

text \<open>A record carries a field when its parsed value is a \<open>dict\<close> with that key.\<close>

definition carries :: "string \<Rightarrow> json \<Rightarrow> bool" where
  "carries field data = (case data of JObj d \<Rightarrow> map_of d field \<noteq> None | _ \<Rightarrow> False)"








section \<open>Example data\<close>

text \<open>
  One environment for the examples, a machine whose local time zone is UTC and whose
  clock reads 2023-11-14 22:13:20.  The library is given at the texts and numbers the
  examples use: \<open>example_loads\<close> parses the listed documents and rejects every other
  text, \<open>example_dumps\<close> writes a listed value as its text.  The endpoint answers by
  refresh token: \<open>R1\<close> gets a new access token, \<open>R2\<close> a 200 without one, \<open>R4\<close> no
  answer, \<open>R5\<close> a 200 that is not JSON, \<open>R6\<close> a 200 nested too deep, every other token
  a 401.
\<close>

definition example_now :: int where
  "example_now = 1700000000000000"

definition stored_r1 :: string where
  \<open>stored_r1 = ''{"accessToken":"OLD","refreshToken":"R1","expiresAt":1700086400000}''\<close>

definition stored_r1_value :: json where
  "stored_r1_value =
     JObj [(''accessToken'', JStr ''OLD''), (''refreshToken'', JStr ''R1''),
           (''expiresAt'', JInt 1700086400000)]"

definition stored_new :: string where
  \<open>stored_new = ''{"accessToken": "NEW", "refreshToken": "R1", "expiresAt": 1700003600000}''\<close>

definition stored_new_value :: json where
  "stored_new_value =
     JObj [(''accessToken'', JStr ''NEW''), (''refreshToken'', JStr ''R1''),
           (''expiresAt'', JInt 1700003600000)]"

definition stored_r2 :: string where
  \<open>stored_r2 = ''{"accessToken":"OLD","refreshToken":"R2","expiresAt":1700086400000}''\<close>

definition stored_r2_value :: json where
  "stored_r2_value =
     JObj [(''accessToken'', JStr ''OLD''), (''refreshToken'', JStr ''R2''),
           (''expiresAt'', JInt 1700086400000)]"

definition stored_r3 :: string where
  \<open>stored_r3 = ''{"accessToken":"OLD","refreshToken":"R3","expiresAt":1700086400000}''\<close>

definition stored_r3_value :: json where
  "stored_r3_value =
     JObj [(''accessToken'', JStr ''OLD''), (''refreshToken'', JStr ''R3''),
           (''expiresAt'', JInt 1700086400000)]"

definition body_new :: string where
  \<open>body_new = ''{"access_token":"NEW","expires_in":3600}''\<close>

definition body_new_value :: json where
  "body_new_value = JObj [(''access_token'', JStr ''NEW''), (''expires_in'', JInt 3600)]"

definition body_message :: string where
  \<open>body_message = ''{"message":"ok"}''\<close>

definition body_message_value :: json where
  "body_message_value = JObj [(''message'', JStr ''ok'')]"

definition stored_a :: string where
  \<open>stored_a = ''{"accessToken":"A","refreshToken":"RA","expiresAt":1}''\<close>

definition stored_a_value :: json where
  "stored_a_value =
     JObj [(''accessToken'', JStr ''A''), (''refreshToken'', JStr ''RA''), (''expiresAt'', JInt 1)]"

definition stored_b :: string where
  \<open>stored_b = ''{"accessToken":"B","refreshToken":"RB","expires_at":2}''\<close>

definition stored_b_value :: json where
  "stored_b_value =
     JObj [(''accessToken'', JStr ''B''), (''refreshToken'', JStr ''RB''), (''expires_at'', JInt 2)]"

definition stored_access_only :: string where
  \<open>stored_access_only = ''{"accessToken":"OLD"}''\<close>

definition stored_access_only_value :: json where
  "stored_access_only_value = JObj [(''accessToken'', JStr ''OLD'')]"

definition stored_refresh_only :: string where
  \<open>stored_refresh_only = ''{"refreshToken":"R1"}''\<close>

definition stored_refresh_only_value :: json where
  "stored_refresh_only_value = JObj [(''refreshToken'', JStr ''R1'')]"

definition stored_numeric :: string where
  \<open>stored_numeric = ''{"accessToken":123}''\<close>

definition stored_numeric_value :: json where
  "stored_numeric_value = JObj [(''accessToken'', JInt 123)]"

definition stored_2038 :: string where
  \<open>stored_2038 = ''{"accessToken":"OLD","refreshToken":"R1","expiresAt":2147570048002}''\<close>

definition stored_2038_value :: json where
  "stored_2038_value =
     JObj [(''accessToken'', JStr ''OLD''), (''refreshToken'', JStr ''R1''),
           (''expiresAt'', JInt 2147570048002)]"

definition stored_2038_new :: string where
  \<open>stored_2038_new = ''{"accessToken": "NEW", "refreshToken": "R1", "expiresAt": 2147487248001}''\<close>

definition stored_2038_new_value :: json where
  "stored_2038_new_value =
     JObj [(''accessToken'', JStr ''NEW''), (''refreshToken'', JStr ''R1''),
           (''expiresAt'', JInt 2147487248001)]"

definition two_records :: item_table where
  "two_records = [(''cursorAuth/a'', Some stored_a), (''cursorAuth/b'', Some stored_b)]"

definition three_records :: item_table where
  "three_records =
     [(''cursorAuth/a'', Some stored_a), (''cursorAuth/b'', Some stored_b),
      (''authNote'', Some ''plain text'')]"

definition example_documents :: "(string \<times> json) list" where
  "example_documents =
     [(stored_r1, stored_r1_value), (stored_new, stored_new_value),
      (stored_r2, stored_r2_value), (stored_r3, stored_r3_value),
      (body_new, body_new_value), (body_message, body_message_value),
      (stored_a, stored_a_value), (stored_b, stored_b_value),
      (stored_access_only, stored_access_only_value),
      (stored_refresh_only, stored_refresh_only_value),
      (stored_numeric, stored_numeric_value),
      (stored_2038, stored_2038_value), (stored_2038_new, stored_2038_new_value)]"

definition example_loads :: "string \<Rightarrow> loaded" where
  "example_loads s =
     (case map_of example_documents s of
        None \<Rightarrow> JSONDecodeError ''Expecting value''
      | Some data \<Rightarrow> Loaded data)"

definition example_dumps :: "json \<Rightarrow> string" where
  "example_dumps data =
     (case find (\<lambda>(s, d). d = data) (rev example_documents) of
        None \<Rightarrow> ''?''
      | Some (s, d) \<Rightarrow> s)"

text \<open>A hundred thousand opening brackets: \<open>json.loads\<close> raises \<open>RecursionError\<close> on it.\<close>

definition deep_text :: string where
  "deep_text = replicate 100000 (CHR ''['')"

definition deep_loads :: "string \<Rightarrow> loaded" where
  "deep_loads s = (if s = deep_text then OtherError RecursionError else example_loads s)"

definition example_http :: "json \<Rightarrow> http_outcome" where
  "example_http request =
     (if request = refresh_request (JStr ''R1'') then Response 200 body_new
      else if request = refresh_request (JStr ''R2'') then Response 200 body_message
      else if request = refresh_request (JStr ''R4'') then RequestException
      else if request = refresh_request (JStr ''R5'') then Response 200 ''<html>''
      else if request = refresh_request (JStr ''R6'') then Response 200 deep_text
      else Response 401 ''Unauthorized'')"

text \<open>
  The arithmetic and the dates of the library, at the numbers the examples use.
  \<open>example_quotients\<close>: float quotients \<open>x / y\<close>; the fourth,
  \<open>2147570048002 / 1000\<close>, is the float nearest to 2147570048.002.
  \<open>example_products\<close>: float products; the second is the float nearest to the
  product of the float nearest to 2147487248.002 and 1000, a little under
  2147487248002.  \<open>utc_fromtimestamp\<close> and \<open>utc_timestamp\<close>: the conversions between
  seconds since the epoch and naive readings on a machine on UTC.
\<close>

definition example_quotients :: "((rat \<times> rat) \<times> rat) list" where
  "example_quotients =
     [((1700086400000, 1000), 1700086400),
      ((1700950400000, 1000), 1700950400),
      ((1700777600000, 1000), 1700777600),
      ((2147570048002, 1000), 2251890410653745 / 1048576),
      ((1325628000000, 1000), 1325628000)]"

definition example_true_divide :: "rat \<Rightarrow> rat \<Rightarrow> py_exn + rat" where
  "example_true_divide x y =
     (case map_of example_quotients (x, y) of
        None \<Rightarrow> Inl OverflowError
      | Some q \<Rightarrow> Inr q)"

definition example_products :: "((rat \<times> rat) \<times> rat) list" where
  "example_products =
     [((1700003600, 1000), 1700003600000),
      ((2251803588560945 / 1048576, 1000), 8796107767816191 / 4096)]"

definition example_float_times :: "rat \<Rightarrow> rat \<Rightarrow> rat" where
  "example_float_times x y =
     (case map_of example_products (x, y) of
        None \<Rightarrow> x * y
      | Some p \<Rightarrow> p)"

definition utc_fromtimestamp :: "rat \<Rightarrow> py_exn + int" where
  "utc_fromtimestamp seconds =
     (case map_of
        [(1700086400, Inr 1700086400000000),
         (1700950400, Inr 1700950400000000),
         (1700777600, Inr 1700777600000000),
         (1, Inr 1000000),
         (1000000000000, Inl ValueError),
         (2251890410653745 / 1048576, Inr 2147570048002000)] seconds of
        None \<Rightarrow> Inl ValueError
      | Some reading \<Rightarrow> reading)"

definition utc_timestamp :: "int \<Rightarrow> py_exn + rat" where
  "utc_timestamp reading =
     (case map_of
        [(1700003600000000, Inr 1700003600),
         (2147487248002000, Inr (2251803588560945 / 1048576))] reading of
        None \<Rightarrow> Inl ValueError
      | Some seconds \<Rightarrow> seconds)"

definition example_env :: env where
  "example_env =
     \<lparr>json_loads = example_loads, json_dumps = example_dumps, http_post = example_http,
      clock = example_now, db_available = True,
      true_divide = example_true_divide, fromtimestamp = utc_fromtimestamp,
      timedelta_seconds = (\<lambda>x. Inl TypeError), timestamp = utc_timestamp,
      float_times = example_float_times\<rparr>"

text \<open>The same machine, with the library also given at \<open>deep_text\<close>.\<close>

definition deep_env :: env where
  "deep_env = example_env\<lparr>json_loads := deep_loads\<rparr>"




definition world_of :: "item_table \<Rightarrow> world" where
  "world_of tbl = \<lparr>rows_of = tbl, posted = [], sql_updates = []\<rparr>"

text \<open>
  A codec for the examples, given at the texts they use: three base64 texts with the
  bytes they encode (surplus \<open>=\<close> is ignored by the library's decoder), bytes that are
  their own UTF-8 text, and two JSON documents.
\<close>

definition example_base64 :: "(string \<times> string) list" where
  \<open>example_base64 =
     [(''MTIz===='', ''123''), (''bm9wZQ=='', ''nope''), (''eyJhIjoxMjN9===='', ''{"a":123}'')]\<close>

definition example_payloads :: "(string \<times> json) list" where
  \<open>example_payloads = [(''123'', JInt 123), (''{"a":123}'', JObj [(''a'', JInt 123)])]\<close>

definition example_codec :: codec where
  "example_codec =
     \<lparr>urlsafe_b64decode =
        (\<lambda>s. case map_of example_base64 s of
               None \<Rightarrow> Inl ''Incorrect padding''
             | Some decoded \<Rightarrow> Inr decoded),
      utf8_decode = Inr,
      loads =
        (\<lambda>s. case map_of example_payloads s of
               None \<Rightarrow> Inl ''Expecting value''
             | Some data \<Rightarrow> Inr data)\<rparr>"


section \<open>Facts about numbers\<close>


section \<open>The example data\<close>

lemma example_loads_simps:
  "example_loads stored_r1 = Loaded stored_r1_value"
  "example_loads stored_r2 = Loaded stored_r2_value"
  "example_loads stored_r3 = Loaded stored_r3_value"
  "example_loads body_new = Loaded body_new_value"
  "example_loads body_message = Loaded body_message_value"
  "example_loads stored_a = Loaded stored_a_value"
  "example_loads stored_b = Loaded stored_b_value"
  "example_loads stored_access_only = Loaded stored_access_only_value"
  "example_loads stored_refresh_only = Loaded stored_refresh_only_value"
  "example_loads stored_numeric = Loaded stored_numeric_value"
  "example_loads stored_2038 = Loaded stored_2038_value"
  "example_loads ''plain text'' = JSONDecodeError ''Expecting value''"
  "example_loads ''<html>'' = JSONDecodeError ''Expecting value''"
  by (simp_all add: example_loads_def example_documents_def stored_r1_def stored_new_def
      stored_r2_def stored_r3_def body_new_def body_message_def stored_a_def stored_b_def
      stored_access_only_def stored_refresh_only_def stored_numeric_def stored_2038_def
      stored_2038_new_def)

lemma example_nonempty:
  "stored_r1 \<noteq> []" "stored_r2 \<noteq> []" "stored_r3 \<noteq> []" "stored_a \<noteq> []"
  "stored_b \<noteq> []" "stored_access_only \<noteq> []" "stored_refresh_only \<noteq> []"
  "stored_numeric \<noteq> []" "stored_2038 \<noteq> []"
  by (simp_all add: stored_r1_def stored_r2_def stored_r3_def stored_a_def stored_b_def
      stored_access_only_def stored_refresh_only_def stored_numeric_def stored_2038_def)

lemma key_selected_examples:
  "key_selected ''cursorAuth/tokens''" "key_selected ''cursorAuth/a''"
  "key_selected ''cursorAuth/b''" "key_selected ''authNote''"
  "key_selected ''cursorAuth/refresh''"
  "\<not> key_selected ''workbench.colorTheme''"
  by (simp_all add: key_selected_def ascii_lower_def)

lemma example_env_simps:
  "json_loads example_env = example_loads" "json_dumps example_env = example_dumps"
  "http_post example_env = example_http" "clock example_env = example_now"
  "db_available example_env"
  "true_divide example_env = example_true_divide"
  "fromtimestamp example_env = utc_fromtimestamp"
  "timestamp example_env = utc_timestamp"
  "float_times example_env = example_float_times"
  by (simp_all add: example_env_def)

lemma deep_env_simps:
  "json_loads deep_env deep_text = OtherError RecursionError"
  "http_post deep_env = example_http"
  by (simp_all add: deep_env_def deep_loads_def example_env_def)



lemma example_quotient_simps:
  "example_true_divide 1700086400000 1000 = Inr 1700086400"
  "example_true_divide 1700950400000 1000 = Inr 1700950400"
  "example_true_divide 1700777600000 1000 = Inr 1700777600"
  "example_true_divide 2147570048002 1000 = Inr (2251890410653745 / 1048576)"
  "example_true_divide 1325628000000 1000 = Inr 1325628000"
  by (simp_all add: example_true_divide_def example_quotients_def)

lemma utc_fromtimestamp_simps:
  "utc_fromtimestamp 1700086400 = Inr 1700086400000000"
  "utc_fromtimestamp 1700950400 = Inr 1700950400000000"
  "utc_fromtimestamp 1700777600 = Inr 1700777600000000"
  "utc_fromtimestamp 1000000000000 = Inl ValueError"
  "utc_fromtimestamp (2251890410653745 / 1048576) = Inr 2147570048002000"
  by (simp_all add: utc_fromtimestamp_def)




section \<open>The expiry check\<close>






text \<open>
  Claim C10.  An \<open>expires_at\<close> that is no number (the comparison with \<open>10**12\<close> raises)
  makes the \<open>try\<close> block raise, and whenever the \<open>try\<close> block raises, also on a number
  that the library refuses to divide or to turn into a date, the check answers \<open>True\<close>.
\<close>

theorem check_token_expiry_fail_safe:
  "(as_number v = None \<longrightarrow>
      expiry_decision E v = Inl TypeError \<and> check_token_expiry E v)
   \<and> (expiry_decision E w = Inl e \<longrightarrow> check_token_expiry E w)"
  by (simp add: check_token_expiry_def expiry_decision_def)

text \<open>The string \<open>tomorrow\<close>, and \<open>10^12\<close> seconds (the year 33658).\<close>

theorem check_token_expiry_fail_safe_witness:
  "as_number (JStr ''tomorrow'') = None
   \<and> expiry_decision example_env (JStr ''tomorrow'') = Inl TypeError
   \<and> check_token_expiry example_env (JStr ''tomorrow'')
   \<and> expiry_decision example_env (JInt 1000000000000) = Inl ValueError
   \<and> check_token_expiry example_env (JInt 1000000000000)"
proof -
  have raised: "expiry_decision example_env (JInt 1000000000000) = Inl ValueError"
    by (simp add: expiry_decision_def example_env_simps utc_fromtimestamp_simps)
  show ?thesis
    using check_token_expiry_fail_safe [of "JStr ''tomorrow''" example_env
        "JInt 1000000000000" ValueError] raised
    by simp
qed

section \<open>A refused refresh\<close>

text \<open>
  Claim C3.  When the pass reaches the refresh request (the tokens were read, the refresh
  token is a true value, the expiry check asks for a refresh) and the endpoint answers
  with a status other than 200, the pass ends at "token refresh failed" and returns
  \<open>False\<close>; the rows of the table are what they were, no \<open>UPDATE\<close> was executed, and
  the one request was posted.
\<close>

theorem refresh_failed_on_status:
  assumes "get_current_tokens E W = Some ti"
      and "truthy (refresh_token ti)"
      and "check_token_expiry E (expires_at ti)"
      and "http_post E (refresh_request (refresh_token ti)) = Response status_code body"
      and "status_code \<noteq> 200"
  shows "fst (refresh_if_needed E W) = RefreshFailed
     \<and> \<not> returned (fst (refresh_if_needed E W))
     \<and> rows_of (snd (refresh_if_needed E W)) = rows_of W
     \<and> sql_updates (snd (refresh_if_needed E W)) = sql_updates W
     \<and> posted (snd (refresh_if_needed E W)) = posted W @ [refresh_request (refresh_token ti)]"
  using assms by (simp add: refresh_if_needed_def refresh_access_token_def)

lemma tokens_r3:
  "get_current_tokens example_env (world_of [(''cursorAuth/tokens'', Some stored_r3)]) =
     Some \<lparr>access_token = JStr ''OLD'', refresh_token = JStr ''R3'',
           expires_at = JInt 1700086400000,
           raw_data = [(''cursorAuth/tokens'', stored_r3_value)]\<rparr>"
  using example_nonempty
  by (simp add: get_current_tokens_def example_env_simps world_of_def select_rows_def
      key_selected_examples parse_entry_def example_loads_simps)
     (simp add: stored_r3_value_def)

lemma one_day_left: "check_token_expiry example_env (JInt 1700086400000)"
  by (simp add: check_token_expiry_def expiry_decision_def example_env_simps
      example_quotient_simps utc_fromtimestamp_simps example_now_def timedelta_days_def)

text \<open>One record with the refresh token \<open>R3\<close>, which the endpoint answers with 401.\<close>

theorem refresh_failed_on_status_witness:
  "fst (refresh_if_needed example_env (world_of [(''cursorAuth/tokens'', Some stored_r3)]))
     = RefreshFailed
   \<and> \<not> returned (fst (refresh_if_needed example_env (world_of [(''cursorAuth/tokens'', Some stored_r3)])))
   \<and> rows_of (snd (refresh_if_needed example_env (world_of [(''cursorAuth/tokens'', Some stored_r3)])))
     = [(''cursorAuth/tokens'', Some stored_r3)]
   \<and> sql_updates (snd (refresh_if_needed example_env (world_of [(''cursorAuth/tokens'', Some stored_r3)])))
     = []
   \<and> posted (snd (refresh_if_needed example_env (world_of [(''cursorAuth/tokens'', Some stored_r3)])))
     = [refresh_request (JStr ''R3'')]"
proof -
  have post: "http_post example_env (refresh_request (JStr ''R3'')) = Response 401 ''Unauthorized''"
    by (simp add: example_env_simps example_http_def refresh_request_def)
  show ?thesis
    using refresh_failed_on_status [OF tokens_r3, of 401 "''Unauthorized''"] post one_day_left
    by (simp add: world_of_def)
qed

section \<open>Reading the tokens\<close>

lemma scan_tokens_append:
  "scan_tokens (xs @ ys) found = scan_tokens ys (scan_tokens xs found)"
  by (induction xs found rule: scan_tokens.induct) simp_all

lemma scan_tokens_access_kept:
  "list_all (\<lambda>(key, data). \<not> carries ''accessToken'' data) ys \<Longrightarrow>
   fst (scan_tokens ys (a, r, e)) = a"
  by (induction ys "(a, r, e)" arbitrary: a r e rule: scan_tokens.induct)
     (simp_all add: carries_def split: option.splits)

lemma scan_tokens_refresh_kept:
  "list_all (\<lambda>(key, data). \<not> carries ''refreshToken'' data) ys \<Longrightarrow>
   fst (snd (scan_tokens ys (a, r, e))) = r"
  by (induction ys "(a, r, e)" arbitrary: a r e rule: scan_tokens.induct)
     (simp_all add: carries_def split: option.splits)

lemma scan_tokens_expires_kept:
  "list_all (\<lambda>(key, data). \<not> carries ''expiresAt'' data \<and> \<not> carries ''expires_at'' data) ys \<Longrightarrow>
   snd (snd (scan_tokens ys (a, r, e))) = e"
  by (induction ys "(a, r, e)" arbitrary: a r e rule: scan_tokens.induct)
     (simp_all add: carries_def split: option.splits)

lemma scan_tokens_last:
  "scan_tokens (xs @ (key, JObj d) # ys) found =
     scan_tokens ys
       ((case map_of d ''accessToken'' of Some v \<Rightarrow> v | None \<Rightarrow> fst (scan_tokens xs found)),
        (case map_of d ''refreshToken'' of Some v \<Rightarrow> v | None \<Rightarrow> fst (snd (scan_tokens xs found))),
        (case map_of d ''expiresAt'' of
           Some v \<Rightarrow> v
         | None \<Rightarrow> (case map_of d ''expires_at'' of Some v \<Rightarrow> v
                     | None \<Rightarrow> snd (snd (scan_tokens xs found)))))"
  by (cases "scan_tokens xs found") (auto simp: scan_tokens_append split: option.splits)

lemma update_fresh: "key \<notin> fst ` set al \<Longrightarrow> AList.update key v al = al @ [(key, v)]"
  by (induction al) auto

lemma build_auth_data_distinct:
  assumes "distinct (map fst rows)" and "fst ` set rows \<inter> fst ` set auth_data = {}"
    and "build_auth_data E rows auth_data = Inr out"
  shows "map (\<lambda>(key, data). (key, Inr data)) out =
     map (\<lambda>(key, data). (key, Inr data)) auth_data
       @ map (\<lambda>(key, v). (key, parse_entry E v)) rows"
  using assms
proof (induction rows arbitrary: auth_data)
  case Nil
  then show ?case by simp
next
  case (Cons row rows)
  obtain key v where row: "row = (key, v)"
    by (cases row)
  obtain data where data: "parse_entry E v = Inr data"
    and rest: "build_auth_data E rows (AList.update key data auth_data) = Inr out"
    using Cons.prems(3) by (auto simp: row split: sum.splits)
  have fresh: "key \<notin> fst ` set auth_data"
    using Cons.prems(2) row by auto
  have step: "AList.update key data auth_data = auth_data @ [(key, data)]"
    using fresh by (rule update_fresh)
  have "distinct (map fst rows)"
    using Cons.prems(1) by simp
  moreover have "fst ` set rows \<inter> fst ` set (auth_data @ [(key, data)]) = {}"
    using Cons.prems(1,2) row by auto
  moreover have "build_auth_data E rows (auth_data @ [(key, data)]) = Inr out"
    using rest step by simp
  ultimately have "map (\<lambda>(key, data). (key, Inr data)) out =
      map (\<lambda>(key, data). (key, Inr data)) (auth_data @ [(key, data)])
        @ map (\<lambda>(key, v). (key, parse_entry E v)) rows"
    by (rule Cons.IH)
  then show ?case
    by (simp add: row data)
qed

lemma raw_data_in_store_order:
  assumes "get_current_tokens E W = Some ti" and "distinct (map fst (rows_of W))"
  shows "map (\<lambda>(key, data). (key, Inr data)) (raw_data ti) =
     map (\<lambda>(key, v). (key, parse_entry E v)) (select_rows (rows_of W))"
proof -
  have built: "build_auth_data E (select_rows (rows_of W)) [] = Inr (raw_data ti)"
    using assms(1)
    by (auto simp: get_current_tokens_def split: if_splits sum.splits prod.splits)
  have "distinct (map fst (select_rows (rows_of W)))"
    using assms(2) by (simp add: select_rows_def distinct_map_filter)
  then show ?thesis
    using build_auth_data_distinct [of "select_rows (rows_of W)" "[]" E "raw_data ti"] built
    by simp
qed

text \<open>
  Claim C1, as amended.  Of the records read, in the order of the \<open>dict\<close> built from the
  rows, the last one that carries a field decides it: \<open>access_token\<close> is the
  \<open>accessToken\<close> of the last record that has one, \<open>refresh_token\<close> the \<open>refreshToken\<close> of
  the last record that has one, and \<open>expires_at\<close> comes from the last record that has
  \<open>expiresAt\<close> or \<open>expires_at\<close> (\<open>expiresAt\<close> first within a record).  When the keys of
  the table are distinct, the records read are the selected rows, parsed (none with an
  exception), in the order in which the table enumerates them.
\<close>

theorem get_current_tokens_last_match:
  assumes "get_current_tokens E W = Some ti"
      and "raw_data ti = earlier @ (key, JObj d) # later"
  shows "(map_of d ''accessToken'' = Some a
            \<and> list_all (\<lambda>(k, data). \<not> carries ''accessToken'' data) later
          \<longrightarrow> access_token ti = a)
     \<and> (map_of d ''refreshToken'' = Some r
            \<and> list_all (\<lambda>(k, data). \<not> carries ''refreshToken'' data) later
          \<longrightarrow> refresh_token ti = r)
     \<and> ((map_of d ''expiresAt'' = Some e
            \<or> map_of d ''expiresAt'' = None \<and> map_of d ''expires_at'' = Some e)
            \<and> list_all (\<lambda>(k, data). \<not> carries ''expiresAt'' data \<and> \<not> carries ''expires_at'' data) later
          \<longrightarrow> expires_at ti = e)
     \<and> (distinct (map fst (rows_of W)) \<longrightarrow>
          map (\<lambda>(key, data). (key, Inr data)) (raw_data ti) =
            map (\<lambda>(key, v). (key, parse_entry E v)) (select_rows (rows_of W)))"
proof -
  let ?scan = "scan_tokens (raw_data ti) (JNull, JNull, JNull)"
  have ti: "access_token ti = fst ?scan" "refresh_token ti = fst (snd ?scan)"
    "expires_at ti = snd (snd ?scan)"
    using assms(1)
    by (auto simp: get_current_tokens_def split: if_splits sum.splits prod.splits)
  have acc: "access_token ti = a"
    if "map_of d ''accessToken'' = Some a"
      and "list_all (\<lambda>(k, data). \<not> carries ''accessToken'' data) later"
    unfolding ti assms(2) scan_tokens_last using that
    by (simp add: scan_tokens_access_kept)
  have ref: "refresh_token ti = r"
    if "map_of d ''refreshToken'' = Some r"
      and "list_all (\<lambda>(k, data). \<not> carries ''refreshToken'' data) later"
    unfolding ti assms(2) scan_tokens_last using that
    by (simp add: scan_tokens_refresh_kept)
  have exp: "expires_at ti = e"
    if "map_of d ''expiresAt'' = Some e
          \<or> map_of d ''expiresAt'' = None \<and> map_of d ''expires_at'' = Some e"
      and "list_all (\<lambda>(k, data). \<not> carries ''expiresAt'' data \<and> \<not> carries ''expires_at'' data) later"
    unfolding ti assms(2) scan_tokens_last using that
    by (auto simp: scan_tokens_expires_kept)
  have order: "map (\<lambda>(key, data). (key, Inr data)) (raw_data ti) =
      map (\<lambda>(key, v). (key, parse_entry E v)) (select_rows (rows_of W))"
    if "distinct (map fst (rows_of W))"
    using assms(1) that by (rule raw_data_in_store_order)
  show ?thesis
    using acc ref exp order by blast
qed

lemma tokens_three_records:
  "get_current_tokens example_env (world_of three_records) =
     Some \<lparr>access_token = JStr ''B'', refresh_token = JStr ''RB'', expires_at = JInt 2,
           raw_data = [(''cursorAuth/a'', stored_a_value), (''cursorAuth/b'', stored_b_value),
                       (''authNote'', JStr ''plain text'')]\<rparr>"
  using example_nonempty
  by (simp add: get_current_tokens_def example_env_simps world_of_def select_rows_def
      three_records_def key_selected_examples parse_entry_def example_loads_simps)
     (simp add: stored_a_value_def stored_b_value_def)

text \<open>Three records: two with tokens, then one that is plain text.  The second decides.\<close>

theorem get_current_tokens_last_match_witness:
  "access_token (the (get_current_tokens example_env (world_of three_records))) = JStr ''B''
   \<and> refresh_token (the (get_current_tokens example_env (world_of three_records))) = JStr ''RB''
   \<and> expires_at (the (get_current_tokens example_env (world_of three_records))) = JInt 2
   \<and> map (\<lambda>(key, data). (key, Inr data))
         (raw_data (the (get_current_tokens example_env (world_of three_records)))) =
       map (\<lambda>(key, v). (key, parse_entry example_env v)) three_records"
proof -
  have keys: "distinct (map fst (rows_of (world_of three_records)))"
    by (simp add: world_of_def three_records_def)
  have sel: "select_rows (rows_of (world_of three_records)) = three_records"
    by (simp add: world_of_def three_records_def select_rows_def key_selected_examples)
  show ?thesis
    using get_current_tokens_last_match [OF tokens_three_records,
      of "[(''cursorAuth/a'', stored_a_value)]" "''cursorAuth/b''"
         "[(''accessToken'', JStr ''B''), (''refreshToken'', JStr ''RB''), (''expires_at'', JInt 2)]"
         "[(''authNote'', JStr ''plain text'')]" "JStr ''B''" "JStr ''RB''" "JInt 2"] keys
    by (simp add: tokens_three_records stored_b_value_def carries_def sel)
qed

text \<open>
  Two records, each with all three fields, the first with \<open>A\<close>, \<open>RA\<close> and \<open>1\<close>, the
  second with \<open>B\<close>, \<open>RB\<close> and \<open>2\<close>: the tokens read are those of the second record,
  not the first values found.
\<close>

theorem get_current_tokens_first_match_counterexample:
  "map_option (\<lambda>ti. (access_token ti, refresh_token ti, expires_at ti))
     (get_current_tokens example_env (world_of two_records))
   = Some (JStr ''B'', JStr ''RB'', JInt 2)
   \<and> map_option (\<lambda>ti. (access_token ti, refresh_token ti, expires_at ti))
     (get_current_tokens example_env (world_of two_records))
   \<noteq> Some (JStr ''A'', JStr ''RA'', JInt 1)"
  using example_nonempty
  by (simp add: get_current_tokens_def example_env_simps world_of_def select_rows_def
      two_records_def key_selected_examples parse_entry_def example_loads_simps)
     (simp add: stored_a_value_def stored_b_value_def)

section \<open>Nothing to read\<close>

text \<open>
  Claim C5, as amended.  When the database cannot be read, the pass ends at "cannot get
  the current token information"; when it can be read and no row matches the filter,
  the pass ends at "no refresh token found", the same place as for records without a
  refresh token.  Both return \<open>False\<close> and leave the table, the statements executed and
  the requests posted as they were.
\<close>

theorem refresh_if_needed_nothing_found:
  "(\<not> db_available E \<longrightarrow> refresh_if_needed E W = (NoTokenInfo, W))
   \<and> (db_available E \<and> select_rows (rows_of W) = [] \<longrightarrow>
        refresh_if_needed E W = (NoRefreshToken, W))
   \<and> \<not> returned NoTokenInfo \<and> \<not> returned NoRefreshToken"
  by (simp add: refresh_if_needed_def get_current_tokens_def)

text \<open>An unreadable database; an empty table; a table whose only key does not match.\<close>

theorem refresh_if_needed_nothing_found_witness:
  "refresh_if_needed (example_env\<lparr>db_available := False\<rparr>) (world_of two_records)
     = (NoTokenInfo, world_of two_records)
   \<and> refresh_if_needed example_env (world_of []) = (NoRefreshToken, world_of [])
   \<and> refresh_if_needed example_env (world_of [(''workbench.colorTheme'', Some ''Dark'')])
     = (NoRefreshToken, world_of [(''workbench.colorTheme'', Some ''Dark'')])"
  using refresh_if_needed_nothing_found [of "example_env\<lparr>db_available := False\<rparr>" "world_of two_records"]
    refresh_if_needed_nothing_found [of example_env "world_of []"]
    refresh_if_needed_nothing_found [of example_env "world_of [(''workbench.colorTheme'', Some ''Dark'')]"]
  by (simp add: example_env_simps world_of_def select_rows_def key_selected_examples)

text \<open>
  On an empty table the pass does not end at "cannot get the current token
  information": it ends where it ends for a record that has no refresh token.
\<close>

theorem refresh_if_needed_empty_store_counterexample:
  "fst (refresh_if_needed example_env (world_of [])) \<noteq> NoTokenInfo
   \<and> fst (refresh_if_needed example_env (world_of [])) = NoRefreshToken
   \<and> fst (refresh_if_needed example_env (world_of [(''cursorAuth/tokens'', Some stored_access_only)]))
       = NoRefreshToken"
  using example_nonempty
  by (simp add: refresh_if_needed_def get_current_tokens_def example_env_simps world_of_def
      select_rows_def key_selected_examples parse_entry_def example_loads_simps)
     (simp add: stored_access_only_value_def)

section \<open>The refresh request\<close>

text \<open>
  Claim C7, as amended.  The request returns the parsed body when the status is 200 and
  the body parses as JSON, whatever the body holds; it returns \<open>None\<close>, and nothing
  else, on a 200 whose body does not parse (with \<open>JSONDecodeError\<close> or any other
  exception), on any other status and on an exception of the request.  In every case
  exactly one request is posted.
\<close>

theorem refresh_access_token_result:
  "(http_post E (refresh_request token) = Response 200 body1
        \<and> json_loads E body1 = Loaded result
      \<longrightarrow> fst (refresh_access_token E W token) = result)
   \<and> (http_post E (refresh_request token) = Response 200 body2
        \<and> json_loads E body2 = JSONDecodeError msg
      \<longrightarrow> fst (refresh_access_token E W token) = JNull)
   \<and> (http_post E (refresh_request token) = Response 200 body4
        \<and> json_loads E body4 = OtherError exn
      \<longrightarrow> fst (refresh_access_token E W token) = JNull)
   \<and> (http_post E (refresh_request token) = Response status_code body3 \<and> status_code \<noteq> 200
      \<longrightarrow> fst (refresh_access_token E W token) = JNull)
   \<and> (http_post E (refresh_request token) = RequestException
      \<longrightarrow> fst (refresh_access_token E W token) = JNull)
   \<and> snd (refresh_access_token E W token) = W\<lparr>posted := posted W @ [refresh_request token]\<rparr>"
  by (auto simp: refresh_access_token_def Let_def split: http_outcome.splits loaded.splits)

lemma example_http_simps:
  "example_http (refresh_request (JStr ''R1'')) = Response 200 body_new"
  "example_http (refresh_request (JStr ''R2'')) = Response 200 body_message"
  "example_http (refresh_request (JStr ''R3'')) = Response 401 ''Unauthorized''"
  "example_http (refresh_request (JStr ''R4'')) = RequestException"
  "example_http (refresh_request (JStr ''R5'')) = Response 200 ''<html>''"
  "example_http (refresh_request (JStr ''R6'')) = Response 200 deep_text"
  by (simp_all add: example_http_def refresh_request_def)

text \<open>The tokens \<open>R1\<close>, \<open>R5\<close>, \<open>R6\<close>, \<open>R3\<close> and \<open>R4\<close> of the example endpoint.\<close>

theorem refresh_access_token_result_witness:
  "fst (refresh_access_token example_env (world_of []) (JStr ''R1'')) = body_new_value
   \<and> fst (refresh_access_token example_env (world_of []) (JStr ''R5'')) = JNull
   \<and> fst (refresh_access_token deep_env (world_of []) (JStr ''R6'')) = JNull
   \<and> fst (refresh_access_token example_env (world_of []) (JStr ''R3'')) = JNull
   \<and> fst (refresh_access_token example_env (world_of []) (JStr ''R4'')) = JNull
   \<and> snd (refresh_access_token example_env (world_of []) (JStr ''R1''))
       = \<lparr>rows_of = [], posted = [refresh_request (JStr ''R1'')], sql_updates = []\<rparr>"
  using refresh_access_token_result [where E = example_env and token = "JStr ''R1''"
      and W = "world_of []" and ?body1.0 = body_new and result = body_new_value]
    refresh_access_token_result [where E = example_env and token = "JStr ''R5''"
      and W = "world_of []" and ?body2.0 = "''<html>''" and msg = "''Expecting value''"]
    refresh_access_token_result [where E = deep_env and token = "JStr ''R6''"
      and W = "world_of []" and ?body4.0 = deep_text and exn = RecursionError]
    refresh_access_token_result [where E = example_env and token = "JStr ''R3''"
      and W = "world_of []" and status_code = 401 and ?body3.0 = "''Unauthorized''"]
    refresh_access_token_result [where E = example_env and token = "JStr ''R4''"
      and W = "world_of []"]
  by (simp add: example_env_simps deep_env_simps example_http_simps example_loads_simps
      world_of_def)

lemma tokens_r2:
  "get_current_tokens example_env (world_of [(''cursorAuth/tokens'', Some stored_r2)]) =
     Some \<lparr>access_token = JStr ''OLD'', refresh_token = JStr ''R2'',
           expires_at = JInt 1700086400000,
           raw_data = [(''cursorAuth/tokens'', stored_r2_value)]\<rparr>"
  using example_nonempty
  by (simp add: get_current_tokens_def example_env_simps world_of_def select_rows_def
      key_selected_examples parse_entry_def example_loads_simps)
     (simp add: stored_r2_value_def)

lemma example_dumps_simps:
  "example_dumps stored_new_value = stored_new"
  "example_dumps stored_r2_value = stored_r2"
  "example_dumps stored_2038_new_value = stored_2038_new"
  by (simp_all add: example_dumps_def example_documents_def stored_r1_value_def
      stored_new_value_def stored_r2_value_def stored_r3_value_def body_new_value_def
      body_message_value_def stored_a_value_def stored_b_value_def
      stored_access_only_value_def stored_refresh_only_value_def stored_numeric_value_def
      stored_2038_value_def stored_2038_new_value_def)

text \<open>
  The endpoint answers 200 with the body \<open>{"message":"ok"}\<close>: no \<open>access_token\<close>, and
  yet the body is returned as the result, the pass goes on to rewrite the record (with
  its old token) and reports success.
\<close>

theorem refresh_access_token_no_access_token_counterexample:
  "fst (refresh_access_token example_env (world_of []) (JStr ''R2''))
     = JObj [(''message'', JStr ''ok'')]
   \<and> truthy (fst (refresh_access_token example_env (world_of []) (JStr ''R2'')))
   \<and> refresh_if_needed example_env (world_of [(''cursorAuth/tokens'', Some stored_r2)])
     = (Refreshed,
        \<lparr>rows_of = [(''cursorAuth/tokens'', Some stored_r2)],
         posted = [refresh_request (JStr ''R2'')],
         sql_updates = [(stored_r2, ''cursorAuth/tokens'')]\<rparr>)"
proof -
  have call: "refresh_access_token example_env W (JStr ''R2'') =
      (JObj [(''message'', JStr ''ok'')], W\<lparr>posted := posted W @ [refresh_request (JStr ''R2'')]\<rparr>)"
    for W
    by (simp add: refresh_access_token_def example_env_simps example_http_simps
        example_loads_simps body_message_value_def)
  have step: "update_step example_env (JObj [(''message'', JStr ''ok'')]) (Some stored_r2)
      = Write stored_r2"
    using example_nonempty
    by (simp add: update_step_def example_env_simps example_loads_simps)
       (simp add: stored_r2_value_def refreshed_entry_def token_preview_def example_env_simps
          example_dumps_simps [unfolded stored_r2_value_def])
  have upd: "update_token_in_db example_env
        \<lparr>rows_of = [(''cursorAuth/tokens'', Some stored_r2)],
         posted = [refresh_request (JStr ''R2'')], sql_updates = []\<rparr>
        (JObj [(''message'', JStr ''ok'')])
      = (True, \<lparr>rows_of = [(''cursorAuth/tokens'', Some stored_r2)],
         posted = [refresh_request (JStr ''R2'')],
         sql_updates = [(stored_r2, ''cursorAuth/tokens'')]\<rparr>)"
    by (simp add: update_token_in_db_def example_env_simps select_rows_def
        key_selected_examples step sql_update_def)
  show ?thesis
    using one_day_left
    by (simp add: call refresh_if_needed_def tokens_r2 example_env_simps)
       (simp add: world_of_def upd)
qed

section \<open>Renewing a record\<close>







section \<open>The persist step\<close>
















section \<open>Decoding a token's payload\<close>

text \<open>
  Claim C8, as amended.  A token that does not split into exactly three pieces at its
  dots gives the error "not a valid JWT format".  For a token of three pieces, a failure
  of the base64 decoding, of the UTF-8 decoding or of the JSON parsing gives one and the
  same error, "decoding failed", with the message of the exception; and a payload that
  parses as JSON is returned without an error, whatever JSON value it is.
\<close>

theorem decode_jwt_payload_results:
  "(length (split_dot malformed) \<noteq> 3 \<longrightarrow>
      decode_jwt_payload L malformed = (JNull, Some NotJWTFormat))
   \<and> (split_dot t1 = [h1, p1, s1] \<and> urlsafe_b64decode L (add_padding p1) = Inl m1 \<longrightarrow>
      decode_jwt_payload L t1 = (JNull, Some (DecodeFailed m1)))
   \<and> (split_dot t2 = [h2, p2, s2] \<and> urlsafe_b64decode L (add_padding p2) = Inr b2
        \<and> utf8_decode L b2 = Inl m2 \<longrightarrow>
      decode_jwt_payload L t2 = (JNull, Some (DecodeFailed m2)))
   \<and> (split_dot t3 = [h3, p3, s3] \<and> urlsafe_b64decode L (add_padding p3) = Inr b3
        \<and> utf8_decode L b3 = Inr x3 \<and> loads L x3 = Inl m3 \<longrightarrow>
      decode_jwt_payload L t3 = (JNull, Some (DecodeFailed m3)))
   \<and> (split_dot t4 = [h4, p4, s4] \<and> urlsafe_b64decode L (add_padding p4) = Inr b4
        \<and> utf8_decode L b4 = Inr x4 \<and> loads L x4 = Inr data \<longrightarrow>
      decode_jwt_payload L t4 = (data, None))"
  by (simp add: decode_jwt_payload_def Let_def)

lemma example_codec_simps:
  "urlsafe_b64decode example_codec ''MTIz===='' = Inr ''123''"
  "urlsafe_b64decode example_codec ''bm9wZQ=='' = Inr ''nope''"
  "urlsafe_b64decode example_codec ''a==='' = Inl ''Incorrect padding''"
  "utf8_decode example_codec = Inr"
  "loads example_codec ''123'' = Inr (JInt 123)"
  "loads example_codec ''nope'' = Inl ''Expecting value''"
  by (simp_all add: example_codec_def example_base64_def example_payloads_def)

lemma example_splits:
  "split_dot ''h.s'' = [''h'', ''s'']"
  "split_dot ''h.a.s'' = [''h'', ''a'', ''s'']"
  "split_dot ''h.bm9wZQ.s'' = [''h'', ''bm9wZQ'', ''s'']"
  "split_dot ''h.MTIz.s'' = [''h'', ''MTIz'', ''s'']"
  by simp_all

lemma replicate_small:
  "replicate 4 c = [c, c, c, c]" "replicate 3 c = [c, c, c]" "replicate 2 c = [c, c]"
  "replicate 1 c = [c]"
  by (simp_all add: numeral_Bit0 numeral_Bit1)

lemma example_paddings:
  "add_padding ''a'' = ''a===''"
  "add_padding ''bm9wZQ'' = ''bm9wZQ==''"
  "add_padding ''MTIz'' = ''MTIz====''"
  by (simp_all add: add_padding_def replicate_small)

text \<open>
  Two pieces; a payload that is not base64; a payload that decodes to \<open>nope\<close>, which
  is not JSON; a payload that decodes to \<open>123\<close>.
\<close>

theorem decode_jwt_payload_results_witness:
  "decode_jwt_payload example_codec ''h.s'' = (JNull, Some NotJWTFormat)
   \<and> decode_jwt_payload example_codec ''h.a.s'' = (JNull, Some (DecodeFailed ''Incorrect padding''))
   \<and> decode_jwt_payload example_codec ''h.bm9wZQ.s'' = (JNull, Some (DecodeFailed ''Expecting value''))
   \<and> decode_jwt_payload example_codec ''h.MTIz.s'' = (JInt 123, None)"
  using decode_jwt_payload_results [where L = example_codec and malformed = "''h.s''"
      and ?t1.0 = "''h.a.s''" and ?h1.0 = "''h''" and ?p1.0 = "''a''" and ?s1.0 = "''s''"
      and ?m1.0 = "''Incorrect padding''"
      and ?t3.0 = "''h.bm9wZQ.s''" and ?h3.0 = "''h''" and ?p3.0 = "''bm9wZQ''" and ?s3.0 = "''s''"
      and ?b3.0 = "''nope''" and ?x3.0 = "''nope''" and ?m3.0 = "''Expecting value''"
      and ?t4.0 = "''h.MTIz.s''" and ?h4.0 = "''h''" and ?p4.0 = "''MTIz''" and ?s4.0 = "''s''"
      and ?b4.0 = "''123''" and ?x4.0 = "''123''" and data = "JInt 123"]
  by (simp add: example_splits example_paddings example_codec_simps)

text \<open>
  The payload \<open>MTIz\<close> decodes to the bytes \<open>123\<close>, which are JSON but no JSON object:
  the decoder returns the number 123 and no error.
\<close>

theorem decode_jwt_payload_number_counterexample:
  "decode_jwt_payload example_codec ''h.MTIz.s'' = (JInt 123, None)
   \<and> length (split_dot ''h.MTIz.s'') = 3
   \<and> urlsafe_b64decode example_codec (add_padding ''MTIz'') = Inr ''123''
   \<and> loads example_codec ''123'' = Inr (JInt 123)"
  by (simp add: decode_jwt_payload_def example_paddings example_codec_simps)

text \<open>
  Claim C9 at the payload \<open>eyJhIjoxMjN9\<close>, the encoding of \<open>{"a":123}\<close>: its length, 12,
  is a multiple of 4, and four \<open>=\<close> are appended to it all the same.
\<close>

theorem add_padding_multiple_of_four:
  "length ''eyJhIjoxMjN9'' mod 4 = 0
   \<and> add_padding ''eyJhIjoxMjN9'' = ''eyJhIjoxMjN9====''"
  by (simp add: add_padding_def replicate_small)

lemma add_padding_length:
  "length (add_padding payload) mod 4 = 0
   \<and> length payload < length (add_padding payload)
   \<and> length (add_padding payload) \<le> length payload + 4"
proof -
  have "(length payload + (4 - length payload mod 4)) mod 4 = 0"
    by presburger
  then show ?thesis
    by (simp add: add_padding_def)
qed

end
